theory Spec2Isabelle
  imports Complex_Main
begin

section \<open>JavaScript values\<close>

text \<open>
  The builders of \<^verbatim>\<open>src/lib/Elements/index.js\<close> take and return plain JavaScript
  data. A value is \<^verbatim>\<open>undefined\<close>, \<^verbatim>\<open>null\<close>, a boolean, a number, a string, an
  array or a plain object; an object is the list of its keys and values in insertion
  order, and a key whose value is \<^verbatim>\<open>undefined\<close> is a key of the list like any other.
  Numbers are never computed with here, only tested for truthiness, so a number is
  \<^verbatim>\<open>NaN\<close>, an infinity or a finite rational.

  A string is a list of code units. The only characters the code ever tells apart are
  the four ASCII characters \<^verbatim>\<open>@ < > [\<close>, so \<^typ>\<open>char\<close> is enough of an alphabet.
\<close>

datatype jsnum = NaN | PosInfinity | NegInfinity | Finite rat

datatype jsval =
    JUndefined
  | JNull
  | JBool bool
  | JNum jsnum
  | JStr string
  | JArr "jsval list"
  | JObj "(string \<times> jsval) list"

datatype error = TypeError

text \<open>\<^verbatim>\<open>ToBoolean\<close>, as used by \<^verbatim>\<open>&&\<close> and \<^verbatim>\<open>?:\<close>.\<close>

fun truthy :: "jsval \<Rightarrow> bool" where
  "truthy JUndefined = False"
| "truthy JNull = False"
| "truthy (JBool b) = b"
| "truthy (JNum NaN) = False"
| "truthy (JNum (Finite q)) = (q \<noteq> 0)"
| "truthy (JNum PosInfinity) = True"
| "truthy (JNum NegInfinity) = True"
| "truthy (JStr s) = (s \<noteq> [])"
| "truthy (JArr xs) = True"
| "truthy (JObj kvs) = True"

fun typeof :: "jsval \<Rightarrow> string" where
  "typeof JUndefined = ''undefined''"
| "typeof JNull = ''object''"
| "typeof (JBool b) = ''boolean''"
| "typeof (JNum n) = ''number''"
| "typeof (JStr s) = ''string''"
| "typeof (JArr xs) = ''object''"
| "typeof (JObj kvs) = ''object''"

text \<open>
  Destructuring \<^verbatim>\<open>undefined\<close> or \<^verbatim>\<open>null\<close>, or reading a property of one, throws a
  \<^verbatim>\<open>TypeError\<close>.
\<close>

fun nullish :: "jsval \<Rightarrow> bool" where
  "nullish JUndefined = True"
| "nullish JNull = True"
| "nullish v = False"

text \<open>
  Reading the property \<open>k\<close> of a value that is not nullish. The builders read only
  the names of their parameters (never \<^verbatim>\<open>length\<close> or an index), which a primitive or
  an array does not have: the read gives \<^verbatim>\<open>undefined\<close>, as it does for a key an
  object lacks.
\<close>

fun read_prop :: "jsval \<Rightarrow> string \<Rightarrow> jsval" where
  "read_prop (JObj kvs) k = (case map_of kvs k of Some v \<Rightarrow> v | None \<Rightarrow> JUndefined)"
| "read_prop v k = JUndefined"

text \<open>
  A destructuring default \<^verbatim>\<open>{ k = d }\<close>: the default is taken exactly when the value
  read is \<^verbatim>\<open>undefined\<close>.
\<close>

definition dflt :: "jsval \<Rightarrow> jsval \<Rightarrow> jsval" where
  "dflt v d = (if v = JUndefined then d else v)"

section \<open>The mention pattern\<close>

text \<open>
  Lines 120 and 315 call \<^verbatim>\<open>text.replace\<close> with the global pattern
  \<^verbatim>\<open>/@<+([^>[]+)>+/g\<close> (the source escapes \<^verbatim>\<open>@\<close>, the first \<^verbatim>\<open><\<close> and the first
  \<^verbatim>\<open>>\<close> with a backslash, which changes nothing) and the replacement
  \<^verbatim>\<open>"<at>$1</at>"\<close>.

  The pattern is \<^verbatim>\<open>@\<close>, then \<^verbatim>\<open><+\<close>, then the group \<^verbatim>\<open>([^>[]+)\<close>, then \<^verbatim>\<open>>+\<close>. Each
  \<^verbatim>\<open>+\<close> is greedy and backtracks: it first takes as many characters as it can and,
  when the rest of the pattern fails, gives them back one at a time, down to one.
\<close>

definition content_char :: "char \<Rightarrow> bool" where
  "content_char c \<longleftrightarrow> c \<noteq> CHR ''>'' \<and> c \<noteq> CHR ''[''"

text \<open>\<open>first_down f n\<close>: the first success of \<open>f n\<close>, \<open>f (n - 1)\<close>, ..., \<open>f 1\<close>.\<close>

fun first_down :: "(nat \<Rightarrow> 'a option) \<Rightarrow> nat \<Rightarrow> 'a option" where
  "first_down f 0 = None"
| "first_down f (Suc n) = (case f (Suc n) of Some r \<Rightarrow> Some r | None \<Rightarrow> first_down f n)"

text \<open>\<^verbatim>\<open>>+\<close> and the end of the pattern: what is left of the input after the match.\<close>

definition match_gts :: "string \<Rightarrow> string option" where
  "match_gts s =
     first_down (\<lambda>n. Some (drop n s)) (length (takeWhile (\<lambda>c. c = CHR ''>'') s))"

text \<open>\<^verbatim>\<open>([^>[]+)>+\<close>: the captured text and what is left of the input.\<close>

definition match_group :: "string \<Rightarrow> (string \<times> string) option" where
  "match_group s =
     first_down (\<lambda>n. map_option (Pair (take n s)) (match_gts (drop n s)))
       (length (takeWhile content_char s))"

text \<open>\<^verbatim>\<open><+([^>[]+)>+\<close>.\<close>

definition match_lts :: "string \<Rightarrow> (string \<times> string) option" where
  "match_lts s =
     first_down (\<lambda>k. match_group (drop k s)) (length (takeWhile (\<lambda>c. c = CHR ''<'') s))"

text \<open>The whole pattern, tried at the start of \<open>s\<close>.\<close>

fun match_here :: "string \<Rightarrow> (string \<times> string) option" where
  "match_here [] = None"
| "match_here (c # s) = (if c = CHR ''@'' then match_lts s else None)"

lemma first_down_le:
  "first_down f n = Some r \<Longrightarrow> \<exists>k. 1 \<le> k \<and> k \<le> n \<and> f k = Some r"
proof (induction n)
  case 0
  then show ?case by simp
next
  case (Suc n)
  show ?case
  proof (cases "f (Suc n)")
    case None
    with Suc.prems have "first_down f n = Some r" by simp
    from Suc.IH [OF this] obtain k where "1 \<le> k" "k \<le> n" "f k = Some r" by blast
    then show ?thesis by (intro exI [of _ k]) simp
  next
    case (Some a)
    with Suc.prems have "f (Suc n) = Some r" by simp
    then show ?thesis by (intro exI [of _ "Suc n"]) simp
  qed
qed

lemma match_gts_length: "match_gts s = Some r \<Longrightarrow> length r \<le> length s"
  unfolding match_gts_def by (auto dest!: first_down_le)

lemma match_group_length: "match_group s = Some (g, r) \<Longrightarrow> length r \<le> length s"
  unfolding match_group_def
  by (auto dest!: first_down_le match_gts_length)

lemma match_lts_length: "match_lts s = Some (g, r) \<Longrightarrow> length r \<le> length s"
  unfolding match_lts_def
  by (auto dest!: first_down_le match_group_length)

lemma match_here_shorter: "match_here s = Some m \<Longrightarrow> length (snd m) < length s"
  by (cases s; cases m) (auto split: if_splits dest: match_lts_length)

text \<open>
  The global replace: the pattern is tried at each position from the left; a match is
  replaced by \<^verbatim>\<open><at>$1</at>\<close> and the scan goes on after it, and a position where the
  pattern fails keeps its character.
\<close>

function replace_mentions :: "string \<Rightarrow> string" where
  "replace_mentions [] = []"
| "replace_mentions (c # s) =
     (case match_here (c # s) of
        None \<Rightarrow> c # replace_mentions s
      | Some m \<Rightarrow> ''<at>'' @ fst m @ ''</at>'' @ replace_mentions (snd m))"
  by pat_completeness auto
termination
proof (relation "measure length")
  show "wf (measure length)"
    by simp
next
  fix c :: char and s :: string
  show "(s, c # s) \<in> measure length"
    by simp
next
  fix c :: char and s :: string and m :: "string \<times> string"
  assume "match_here (c # s) = Some m"
  from match_here_shorter [OF this] show "(snd m, c # s) \<in> measure length"
    by simp
qed

section \<open>The element builders\<close>

text \<open>
  \<^verbatim>\<open>EmojiService.toUnicodeVersion\<close> comes from \<^verbatim>\<open>../utils/EmojiService\<close>, which is not
  part of the sources at hand: the builders that call it take it as the parameter
  \<open>emoji\<close>, a function from strings to strings.
\<close>

text \<open>
  Lines 118 to 122 of \<^verbatim>\<open>textBlock\<close> and 313 to 317 of \<^verbatim>\<open>textRun\<close>, which are the
  same statements:
  \<^verbatim>\<open>
  let preparedText = text;
  if (text && typeof text === "string") {
    preparedText = text.replace(..., "<at>$1</at>");
    preparedText = EmojiService.toUnicodeVersion(preparedText);
  }
  \<close>
\<close>

definition preparedText :: "(string \<Rightarrow> string) \<Rightarrow> jsval \<Rightarrow> jsval" where
  "preparedText emoji text =
     (if truthy text \<and> typeof text = ''string''
      then (case text of JStr s \<Rightarrow> JStr (emoji (replace_mentions s)) | _ \<Rightarrow> text)
      else text)"

text \<open>
  Modelled from the spec: \<^verbatim>\<open>this.HAlign.left\<close> is declared by the base class
  \<^verbatim>\<open>../Base\<close>, which is not part of the sources at hand. The specification's table of
  defaults gives the default of \<^verbatim>\<open>horizontalAlignment\<close> as \<^verbatim>\<open>"left"\<close>.
\<close>

definition HAlign_left :: jsval where
  "HAlign_left = JStr ''left''"

text \<open>\<^verbatim>\<open>this.TextStyles.default\<close> (line 55).\<close>

definition TextStyles_default :: jsval where
  "TextStyles_default = JStr ''default''"

text \<open>
  Every builder but the two for people icons destructures its one argument in its
  parameter list, which throws when the argument is \<^verbatim>\<open>undefined\<close> or \<^verbatim>\<open>null\<close>, and
  returns an object literal whose keys are written here in the order of the source.
\<close>

definition textBlock :: "(string \<Rightarrow> string) \<Rightarrow> jsval \<Rightarrow> error + jsval" where
  "textBlock emoji arg =
     (if nullish arg then Inl TypeError
      else Inr (JObj
        [(''type'', JStr ''TextBlock''),
         (''text'', preparedText emoji (read_prop arg ''text'')),
         (''color'', read_prop arg ''color''),
         (''fontType'', read_prop arg ''fontType''),
         (''horizontalAlignment'', dflt (read_prop arg ''horizontalAlignment'') HAlign_left),
         (''isSubtle'', dflt (read_prop arg ''isSubtle'') (JBool False)),
         (''maxLines'', read_prop arg ''maxLines''),
         (''size'', read_prop arg ''size''),
         (''weight'', read_prop arg ''weight''),
         (''wrap'', dflt (read_prop arg ''wrap'') (JBool True)),
         (''style'', dflt (read_prop arg ''style'') TextStyles_default),
         (''height'', read_prop arg ''height''),
         (''separator'', dflt (read_prop arg ''separator'') (JBool False)),
         (''spacing'', read_prop arg ''spacing''),
         (''id'', read_prop arg ''id''),
         (''isVisible'', dflt (read_prop arg ''isVisible'') (JBool True))]))"

definition image :: "jsval \<Rightarrow> error + jsval" where
  "image arg =
     (if nullish arg then Inl TypeError
      else Inr (JObj
        [(''type'', JStr ''Image''),
         (''url'', read_prop arg ''url''),
         (''altText'', dflt (read_prop arg ''altText'') (JStr ''image'')),
         (''backgroundColor'', read_prop arg ''backgroundColor''),
         (''height'', read_prop arg ''height''),
         (''horizontalAlignment'', dflt (read_prop arg ''horizontalAlignment'') HAlign_left),
         (''selectAction'', read_prop arg ''selectAction''),
         (''size'', read_prop arg ''size''),
         (''style'', read_prop arg ''style''),
         (''width'', read_prop arg ''width''),
         (''separator'', dflt (read_prop arg ''separator'') (JBool False)),
         (''spacing'', read_prop arg ''spacing''),
         (''id'', read_prop arg ''id''),
         (''isVisible'', dflt (read_prop arg ''isVisible'') (JBool True)),
         (''msTeams'',
            if truthy (dflt (read_prop arg ''allowZoom'') (JBool False))
            then JObj [(''allowExpand'', JBool True)] else JObj [])]))"

definition media :: "jsval \<Rightarrow> error + jsval" where
  "media arg =
     (if nullish arg then Inl TypeError
      else Inr (JObj
        [(''type'', JStr ''Media''),
         (''sources'', read_prop arg ''sources''),
         (''poster'', read_prop arg ''poster''),
         (''altText'', read_prop arg ''altText''),
         (''height'', read_prop arg ''height''),
         (''separator'', dflt (read_prop arg ''separator'') (JBool False)),
         (''spacing'', read_prop arg ''spacing''),
         (''id'', read_prop arg ''id''),
         (''isVisible'', dflt (read_prop arg ''isVisible'') (JBool True))]))"

definition mediaSource :: "jsval \<Rightarrow> error + jsval" where
  "mediaSource arg =
     (if nullish arg then Inl TypeError
      else Inr (JObj
        [(''mimeType'', read_prop arg ''mimeType''),
         (''url'', read_prop arg ''url'')]))"

definition richTextBlock :: "jsval \<Rightarrow> error + jsval" where
  "richTextBlock arg =
     (if nullish arg then Inl TypeError
      else Inr (JObj
        [(''type'', JStr ''RichTextBlock''),
         (''inlines'', read_prop arg ''inlines''),
         (''horizontalAlignment'', dflt (read_prop arg ''horizontalAlignment'') HAlign_left),
         (''height'', read_prop arg ''height''),
         (''separator'', dflt (read_prop arg ''separator'') (JBool False)),
         (''spacing'', read_prop arg ''spacing''),
         (''id'', read_prop arg ''id''),
         (''isVisible'', dflt (read_prop arg ''isVisible'') (JBool True))]))"

definition textRun :: "(string \<Rightarrow> string) \<Rightarrow> jsval \<Rightarrow> error + jsval" where
  "textRun emoji arg =
     (if nullish arg then Inl TypeError
      else Inr (JObj
        [(''type'', JStr ''TextRun''),
         (''text'', preparedText emoji (read_prop arg ''text'')),
         (''color'', read_prop arg ''color''),
         (''fontType'', read_prop arg ''fontType''),
         (''highlight'', dflt (read_prop arg ''highlight'') (JBool False)),
         (''isSubtle'', dflt (read_prop arg ''isSubtle'') (JBool False)),
         (''italic'', dflt (read_prop arg ''italic'') (JBool False)),
         (''selectAction'', read_prop arg ''selectAction''),
         (''strikethrough'', dflt (read_prop arg ''strikethrough'') (JBool False)),
         (''underline'', dflt (read_prop arg ''underline'') (JBool False)),
         (''size'', read_prop arg ''size''),
         (''weight'', read_prop arg ''weight'')]))"

text \<open>
  \<^verbatim>\<open>userIcon(user)\<close> destructures \<^verbatim>\<open>user\<close> in its first statement, and the arrow
  function of \<^verbatim>\<open>userIconSet\<close> reads three properties of each user: both throw on
  \<^verbatim>\<open>undefined\<close> and \<^verbatim>\<open>null\<close>.
\<close>

definition userIcon :: "jsval \<Rightarrow> error + jsval" where
  "userIcon user =
     (if nullish user then Inl TypeError
      else Inr (JObj
        [(''type'', JStr ''Component''),
         (''name'', JStr ''graph.microsoft.com/user''),
         (''view'', JStr ''compact''),
         (''properties'', JObj
            [(''id'', read_prop user ''id''),
             (''displayName'', read_prop user ''name''),
             (''userPrincipalName'', read_prop user ''email'')])]))"

definition iconOf :: "jsval \<Rightarrow> error + jsval" where
  "iconOf user =
     (if nullish user then Inl TypeError
      else Inr (JObj
        [(''id'', read_prop user ''id''),
         (''displayName'', read_prop user ''name''),
         (''userPrincipalName'', read_prop user ''email'')]))"

text \<open>
  \<^verbatim>\<open>users.map(f)\<close> on an array: \<open>f\<close> is called on the elements from left to right, and
  the first call that throws ends the whole.
\<close>

fun mapUsers :: "jsval list \<Rightarrow> error + jsval list" where
  "mapUsers [] = Inr []"
| "mapUsers (u # us) =
     (case iconOf u of
        Inl e \<Rightarrow> Inl e
      | Inr r \<Rightarrow> (case mapUsers us of Inl e \<Rightarrow> Inl e | Inr rs \<Rightarrow> Inr (r # rs)))"

text \<open>
  Only an array has a \<^verbatim>\<open>map\<close> method among the values modelled: for anything else
  \<^verbatim>\<open>users.map(...)\<close> throws a \<^verbatim>\<open>TypeError\<close>.
\<close>

fun userIconSet :: "jsval \<Rightarrow> error + jsval" where
  "userIconSet (JArr users) =
     (case mapUsers users of
        Inl e \<Rightarrow> Inl e
      | Inr rs \<Rightarrow> Inr (JObj
          [(''type'', JStr ''Component''),
           (''name'', JStr ''graph.microsoft.com/users''),
           (''view'', JStr ''compact''),
           (''properties'', JObj [(''users'', JArr rs)])]))"
| "userIconSet v = Inl TypeError"

text \<open>
  Reading a key of what a call returned: \<open>None\<close> when the call threw or the object
  returned has no such key, \<open>Some v\<close> when it has the key with the value \<open>v\<close> (which
  may be \<^verbatim>\<open>undefined\<close>).
\<close>

fun result_field :: "error + jsval \<Rightarrow> string \<Rightarrow> jsval option" where
  "result_field (Inr (JObj kvs)) k = map_of kvs k"
| "result_field r k = None"

section \<open>Plain text, mention contents and open markers\<close>

text \<open>
  Plain text: no \<^verbatim>\<open>@\<close> is directly followed by \<^verbatim>\<open><\<close>, and the text does not end
  with \<^verbatim>\<open>@\<close>, so the pattern can start nowhere in it whatever follows.
\<close>

fun plain_text :: "string \<Rightarrow> bool" where
  "plain_text [] = True"
| "plain_text [c] = (c \<noteq> CHR ''@'')"
| "plain_text (a # b # r) = (\<not> (a = CHR ''@'' \<and> b = CHR ''<'') \<and> plain_text (b # r))"

text \<open>
  The content of a mention: one or more characters, none of them \<^verbatim>\<open>>\<close> or \<^verbatim>\<open>[\<close>,
  the first of them not \<^verbatim>\<open><\<close>.
\<close>

definition mention_content :: "string \<Rightarrow> bool" where
  "mention_content c \<longleftrightarrow> c \<noteq> [] \<and> hd c \<noteq> CHR ''<'' \<and> list_all content_char c"



section \<open>Facts about the pattern\<close>

lemma first_down_top: "1 \<le> n \<Longrightarrow> f n = Some r \<Longrightarrow> first_down f n = Some r"
  by (cases n) auto

lemma match_gts_run:
  "match_gts (CHR ''>'' # r) = Some (dropWhile (\<lambda>c. c = CHR ''>'') r)"
  by (simp add: match_gts_def dropWhile_eq_drop)

lemma takeWhile_content:
  assumes "list_all content_char c"
  shows "takeWhile content_char (c @ CHR ''>'' # r) = c"
proof -
  have "takeWhile content_char (c @ CHR ''>'' # r) = c @ takeWhile content_char (CHR ''>'' # r)"
    using assms by (intro takeWhile_append2) (simp add: list_all_iff)
  then show ?thesis by (simp add: content_char_def)
qed

lemma match_group_content:
  assumes "c \<noteq> []" and "list_all content_char c"
  shows "match_group (c @ CHR ''>'' # r) = Some (c, dropWhile (\<lambda>x. x = CHR ''>'') r)"
proof -
  from assms(1) have "1 \<le> length c"
    by (cases c) auto
  then show ?thesis
    unfolding match_group_def takeWhile_content [OF assms(2)]
    by (rule first_down_top) (simp add: match_gts_run)
qed

lemma takeWhile_lts:
  assumes "c \<noteq> []" and "hd c \<noteq> CHR ''<''"
  shows "takeWhile (\<lambda>x. x = CHR ''<'') (replicate k CHR ''<'' @ c @ s) = replicate k CHR ''<''"
proof -
  have "takeWhile (\<lambda>x. x = CHR ''<'') (replicate k CHR ''<'' @ c @ s)
      = replicate k CHR ''<'' @ takeWhile (\<lambda>x. x = CHR ''<'') (c @ s)"
    by (intro takeWhile_append2) simp
  moreover have "takeWhile (\<lambda>x. x = CHR ''<'') (c @ s) = []"
    using assms by (cases c) auto
  ultimately show ?thesis by simp
qed

text \<open>
  The pattern on a marker with \<open>k\<close> leading \<^verbatim>\<open><\<close>: the \<^verbatim>\<open><+\<close> takes all of them, the
  group takes the content, and the \<^verbatim>\<open>>+\<close> takes every \<^verbatim>\<open>>\<close> that follows.
\<close>

lemma match_lts_marker:
  assumes "1 \<le> k" and "mention_content c"
  shows "match_lts (replicate k CHR ''<'' @ c @ CHR ''>'' # r)
       = Some (c, dropWhile (\<lambda>x. x = CHR ''>'') r)"
proof -
  from assms(2) have c: "c \<noteq> []" "hd c \<noteq> CHR ''<''" "list_all content_char c"
    by (simp_all add: mention_content_def)
  have "match_lts (replicate k CHR ''<'' @ c @ CHR ''>'' # r)
      = first_down (\<lambda>i. match_group (drop i (replicate k CHR ''<'' @ c @ CHR ''>'' # r))) k"
    unfolding match_lts_def takeWhile_lts [OF c(1,2)] by simp
  also have "\<dots> = Some (c, dropWhile (\<lambda>x. x = CHR ''>'') r)"
    using assms(1) by (rule first_down_top) (simp add: match_group_content [OF c(1,3)])
  finally show ?thesis .
qed

lemma replace_marker:
  assumes "1 \<le> k" and "mention_content c"
  shows "replace_mentions (CHR ''@'' # replicate k CHR ''<'' @ c @ CHR ''>'' # r)
       = ''<at>'' @ c @ ''</at>'' @ replace_mentions (dropWhile (\<lambda>x. x = CHR ''>'') r)"
  using match_lts_marker [OF assms, of r] by simp

lemma replace_marker_run:
  assumes "1 \<le> k" and "1 \<le> n" and "mention_content c"
  shows "replace_mentions (CHR ''@'' # replicate k CHR ''<'' @ c @ replicate n CHR ''>'' @ r)
       = ''<at>'' @ c @ ''</at>'' @ replace_mentions (dropWhile (\<lambda>x. x = CHR ''>'') r)"
proof -
  from assms(2) obtain j where j: "n = Suc j"
    by (cases n) auto
  have "dropWhile (\<lambda>x. x = CHR ''>'') (replicate j CHR ''>'' @ r)
      = dropWhile (\<lambda>x. x = CHR ''>'') r"
    by (intro dropWhile_append2) simp
  with replace_marker [OF assms(1,3), of "replicate j CHR ''>'' @ r"] show ?thesis
    by (simp add: j)
qed

lemma match_lts_no_lt: "s = [] \<or> hd s \<noteq> CHR ''<'' \<Longrightarrow> match_lts s = None"
  by (cases s) (auto simp: match_lts_def)

lemma replace_plain: "plain_text t \<Longrightarrow> replace_mentions (t @ s) = t @ replace_mentions s"
proof (induction t rule: plain_text.induct)
  case 1
  then show ?case by simp
next
  case (2 c)
  then show ?case by simp
next
  case (3 a b r)
  then have "match_here (a # b # r @ s) = None"
    by (auto simp: match_lts_no_lt)
  with 3 show ?case by simp
qed
























lemma preparedText_string:
  "s \<noteq> [] \<Longrightarrow> preparedText emoji (JStr s) = JStr (emoji (replace_mentions s))"
  by (simp add: preparedText_def)

lemma textBlock_text:
  "\<not> nullish arg \<Longrightarrow>
   result_field (textBlock emoji arg) ''text'' = Some (preparedText emoji (read_prop arg ''text''))"
  by (simp add: textBlock_def)

lemma textRun_text:
  "\<not> nullish arg \<Longrightarrow>
   result_field (textRun emoji arg) ''text'' = Some (preparedText emoji (read_prop arg ''text''))"
  by (simp add: textRun_def)

section \<open>The mention rewrite\<close>




text \<open>
  C9. Let the text given to \<^verbatim>\<open>textBlock\<close> or \<^verbatim>\<open>textRun\<close> hold, after plain text, a
  marker made of \<^verbatim>\<open>@\<close>, two or more \<^verbatim>\<open><\<close>, a content (one or more characters other
  than \<^verbatim>\<open>>\<close> and \<^verbatim>\<open>[\<close>, the first not \<^verbatim>\<open><\<close>: the \<^verbatim>\<open><\<close> before it are all the leading
  ones) and one or more \<^verbatim>\<open>>\<close>. Then the whole marker, with all its leading \<^verbatim>\<open><\<close> and
  with every \<^verbatim>\<open>>\<close> that follows the content, is replaced by \<^verbatim>\<open><at>CONTENT</at>\<close>, and
  the rewrite goes on after it.
\<close>

theorem mention_leading_lts:
  assumes "2 \<le> k" and "1 \<le> n" and "mention_content c" and "plain_text pre"
    and "\<not> nullish arg"
    and "read_prop arg ''text''
           = JStr (pre @ CHR ''@'' # replicate k CHR ''<'' @ c @ replicate n CHR ''>'' @ post)"
  shows "result_field (textBlock emoji arg) ''text''
           = Some (JStr (emoji (pre @ ''<at>'' @ c @ ''</at>''
                @ replace_mentions (dropWhile (\<lambda>x. x = CHR ''>'') post))))
       \<and> result_field (textRun emoji arg) ''text''
           = Some (JStr (emoji (pre @ ''<at>'' @ c @ ''</at>''
                @ replace_mentions (dropWhile (\<lambda>x. x = CHR ''>'') post))))"
proof -
  from assms(1) have k: "1 \<le> k" by simp
  have "replace_mentions (pre @ CHR ''@'' # replicate k CHR ''<'' @ c @ replicate n CHR ''>'' @ post)
      = pre @ ''<at>'' @ c @ ''</at>'' @ replace_mentions (dropWhile (\<lambda>x. x = CHR ''>'') post)"
    using replace_plain [OF assms(4)] replace_marker_run [OF k assms(2,3)] by simp
  then have "preparedText emoji (read_prop arg ''text'')
      = JStr (emoji (pre @ ''<at>'' @ c @ ''</at>''
          @ replace_mentions (dropWhile (\<lambda>x. x = CHR ''>'') post)))"
    using assms(6) by (simp add: preparedText_string)
  with assms(5) show ?thesis
    by (simp add: textBlock_text textRun_text)
qed

theorem mention_leading_lts_witness:
  "(2::nat) \<le> 2 \<and> mention_content ''Jane'' \<and> plain_text ''to ''
   \<and> result_field (textBlock (\<lambda>s. s) (JObj [(''text'', JStr ''@<<Jane>>'')])) ''text''
       = Some (JStr ''<at>Jane</at>'')
   \<and> result_field (textRun (\<lambda>s. s) (JObj [(''text'', JStr ''to @<<<Jane>>> and @<Joe>'')])) ''text''
       = Some (JStr ''to <at>Jane</at> and <at>Joe</at>'')"
proof -
  have c: "mention_content ''Jane''"
    by (simp add: mention_content_def content_char_def)
  from mention_leading_lts [of 2 2 "''Jane''" "[]" "JObj [(''text'', JStr ''@<<Jane>>'')]" "[]" "\<lambda>s. s", OF _ _ c]
  have "result_field (textBlock (\<lambda>s. s) (JObj [(''text'', JStr ''@<<Jane>>'')])) ''text''
          = Some (JStr ''<at>Jane</at>'')"
    by (simp add: numeral_2_eq_2)
  moreover
  from mention_leading_lts [of 3 3 "''Jane''" "''to ''"
      "JObj [(''text'', JStr ''to @<<<Jane>>> and @<Joe>'')]" "'' and @<Joe>''" "\<lambda>s. s", OF _ _ c]
  have "result_field (textRun (\<lambda>s. s) (JObj [(''text'', JStr ''to @<<<Jane>>> and @<Joe>'')])) ''text''
          = Some (JStr ''to <at>Jane</at> and <at>Joe</at>'')"
    by (simp add: numeral_3_eq_3 match_lts_def match_group_def match_gts_def content_char_def)
  ultimately show ?thesis
    using c by simp
qed

section \<open>The type discriminant\<close>

text \<open>
  C2, as the specification states it, at \<^verbatim>\<open>mediaSource\<close>: the call returns, and the
  object returned has the two keys \<^verbatim>\<open>mimeType\<close> and \<^verbatim>\<open>url\<close> and no key \<^verbatim>\<open>type\<close>.
\<close>

theorem mediaSource_type_counterexample:
  "mediaSource (JObj [(''mimeType'', JStr ''video/mp4''), (''url'', JStr ''https://x/y.mp4'')])
     = Inr (JObj [(''mimeType'', JStr ''video/mp4''), (''url'', JStr ''https://x/y.mp4'')])
   \<and> result_field
        (mediaSource (JObj [(''mimeType'', JStr ''video/mp4''), (''url'', JStr ''https://x/y.mp4'')]))
        ''type'' = None"
  by (simp add: mediaSource_def)

lemma mapUsers_icons:
  "list_all (\<lambda>u. \<not> nullish u) users \<Longrightarrow>
   mapUsers users
     = Inr (map (\<lambda>u. JObj [(''id'', read_prop u ''id''),
                            (''displayName'', read_prop u ''name''),
                            (''userPrincipalName'', read_prop u ''email'')]) users)"
  by (induction users) (simp_all add: iconOf_def)

text \<open>
  C2, amended. Every call of \<^verbatim>\<open>textBlock\<close>, \<^verbatim>\<open>image\<close>, \<^verbatim>\<open>media\<close>, \<^verbatim>\<open>richTextBlock\<close>,
  \<^verbatim>\<open>textRun\<close> and \<^verbatim>\<open>userIcon\<close> on an argument other than \<^verbatim>\<open>undefined\<close> and \<^verbatim>\<open>null\<close>,
  and every call of \<^verbatim>\<open>userIconSet\<close> on an array without \<^verbatim>\<open>undefined\<close> and \<^verbatim>\<open>null\<close>
  elements, returns an object whose key \<^verbatim>\<open>type\<close> holds the literal of the element:
  \<^verbatim>\<open>"TextBlock"\<close>, \<^verbatim>\<open>"Image"\<close>, \<^verbatim>\<open>"Media"\<close>, \<^verbatim>\<open>"RichTextBlock"\<close>, \<^verbatim>\<open>"TextRun"\<close>, and
  \<^verbatim>\<open>"Component"\<close> for the two people icons. The object \<^verbatim>\<open>mediaSource\<close> returns has no
  key \<^verbatim>\<open>type\<close>.
\<close>

theorem type_discriminant:
  assumes "\<not> nullish arg" and "list_all (\<lambda>u. \<not> nullish u) users"
  shows "result_field (textBlock emoji arg) ''type'' = Some (JStr ''TextBlock'')
       \<and> result_field (image arg) ''type'' = Some (JStr ''Image'')
       \<and> result_field (media arg) ''type'' = Some (JStr ''Media'')
       \<and> result_field (richTextBlock arg) ''type'' = Some (JStr ''RichTextBlock'')
       \<and> result_field (textRun emoji arg) ''type'' = Some (JStr ''TextRun'')
       \<and> result_field (userIcon arg) ''type'' = Some (JStr ''Component'')
       \<and> result_field (userIconSet (JArr users)) ''type'' = Some (JStr ''Component'')
       \<and> (\<exists>kvs. mediaSource arg = Inr (JObj kvs) \<and> map_of kvs ''type'' = None)"
proof -
  have "result_field (userIconSet (JArr users)) ''type'' = Some (JStr ''Component'')"
    using assms(2) by (simp add: mapUsers_icons)
  moreover have "\<exists>kvs. mediaSource arg = Inr (JObj kvs) \<and> map_of kvs ''type'' = None"
    using assms(1) by (simp add: mediaSource_def)
  ultimately show ?thesis
    using assms(1)
    by (simp add: textBlock_def image_def media_def richTextBlock_def textRun_def userIcon_def)
qed

theorem type_discriminant_witness:
  "\<not> nullish (JObj [(''type'', JStr ''mine''), (''text'', JStr ''x'')])
   \<and> list_all (\<lambda>u. \<not> nullish u) [JObj [(''id'', JStr ''1'')], JStr ''u'']
   \<and> result_field (textBlock (\<lambda>s. s) (JObj [(''type'', JStr ''mine''), (''text'', JStr ''x'')])) ''type''
       = Some (JStr ''TextBlock'')
   \<and> result_field (image (JObj [(''type'', JStr ''mine''), (''text'', JStr ''x'')])) ''type''
       = Some (JStr ''Image'')
   \<and> result_field (userIconSet (JArr [JObj [(''id'', JStr ''1'')], JStr ''u''])) ''type''
       = Some (JStr ''Component'')"
  using type_discriminant
    [of "JObj [(''type'', JStr ''mine''), (''text'', JStr ''x'')]"
        "[JObj [(''id'', JStr ''1'')], JStr ''u'']" "\<lambda>s. s"]
  by simp

section \<open>Text that is not a non-empty string\<close>

text \<open>
  C3. When the \<^verbatim>\<open>text\<close> given to \<^verbatim>\<open>textBlock\<close> or \<^verbatim>\<open>textRun\<close> is not a non-empty
  string (it is omitted, \<^verbatim>\<open>undefined\<close>, \<^verbatim>\<open>null\<close>, a boolean, a number, the empty
  string, an array or an object), the element's \<^verbatim>\<open>text\<close> is that value unchanged,
  whatever the emoji converter is: neither the rewrite nor the converter is applied.
\<close>

theorem text_passthrough:
  assumes "\<not> nullish arg"
    and "\<not> (\<exists>s. read_prop arg ''text'' = JStr s \<and> s \<noteq> [])"
  shows "result_field (textBlock emoji arg) ''text'' = Some (read_prop arg ''text'')
       \<and> result_field (textRun emoji arg) ''text'' = Some (read_prop arg ''text'')"
proof -
  have "preparedText emoji (read_prop arg ''text'') = read_prop arg ''text''"
    using assms(2) by (cases "read_prop arg ''text''") (simp_all add: preparedText_def)
  with assms(1) show ?thesis
    by (simp add: textBlock_text textRun_text)
qed

theorem text_passthrough_witness:
  "result_field (textBlock (\<lambda>s. ''!'') (JObj [(''color'', JStr ''good'')])) ''text'' = Some JUndefined
   \<and> result_field (textBlock (\<lambda>s. ''!'') (JObj [(''text'', JNull)])) ''text'' = Some JNull
   \<and> result_field (textRun (\<lambda>s. ''!'') (JObj [(''text'', JNum (Finite 42))])) ''text''
       = Some (JNum (Finite 42))
   \<and> result_field (textRun (\<lambda>s. ''!'') (JObj [(''text'', JStr [])])) ''text'' = Some (JStr [])
   \<and> result_field (textBlock (\<lambda>s. ''!'') (JObj [(''text'', JArr [JStr ''@<a>''])])) ''text''
       = Some (JArr [JStr ''@<a>''])"
  using text_passthrough [of "JObj [(''color'', JStr ''good'')]" "\<lambda>s. ''!''"]
    text_passthrough [of "JObj [(''text'', JNull)]" "\<lambda>s. ''!''"]
    text_passthrough [of "JObj [(''text'', JNum (Finite 42))]" "\<lambda>s. ''!''"]
    text_passthrough [of "JObj [(''text'', JStr [])]" "\<lambda>s. ''!''"]
    text_passthrough [of "JObj [(''text'', JArr [JStr ''@<a>''])]" "\<lambda>s. ''!''"]
  by simp

section \<open>Defaults\<close>

text \<open>
  C4. In the object \<^verbatim>\<open>textBlock\<close> returns, a field that was omitted (or given as
  \<^verbatim>\<open>undefined\<close>) has its default: \<^verbatim>\<open>wrap\<close> is \<^verbatim>\<open>true\<close>, \<^verbatim>\<open>horizontalAlignment\<close> is
  \<^verbatim>\<open>"left"\<close>, \<^verbatim>\<open>style\<close> is \<^verbatim>\<open>"default"\<close>, \<^verbatim>\<open>isSubtle\<close> is \<^verbatim>\<open>false\<close>, \<^verbatim>\<open>separator\<close> is
  \<^verbatim>\<open>false\<close> and \<^verbatim>\<open>isVisible\<close> is \<^verbatim>\<open>true\<close>; and each of \<^verbatim>\<open>color\<close>, \<^verbatim>\<open>fontType\<close>,
  \<^verbatim>\<open>maxLines\<close>, \<^verbatim>\<open>size\<close>, \<^verbatim>\<open>weight\<close>, \<^verbatim>\<open>height\<close>, \<^verbatim>\<open>spacing\<close> and \<^verbatim>\<open>id\<close> is
  \<^verbatim>\<open>undefined\<close> when omitted.
\<close>

theorem textBlock_defaults:
  assumes "\<not> nullish arg"
  shows "(read_prop arg ''wrap'' = JUndefined
            \<longrightarrow> result_field (textBlock emoji arg) ''wrap'' = Some (JBool True))
       \<and> (read_prop arg ''horizontalAlignment'' = JUndefined
            \<longrightarrow> result_field (textBlock emoji arg) ''horizontalAlignment'' = Some (JStr ''left''))
       \<and> (read_prop arg ''style'' = JUndefined
            \<longrightarrow> result_field (textBlock emoji arg) ''style'' = Some (JStr ''default''))
       \<and> (read_prop arg ''isSubtle'' = JUndefined
            \<longrightarrow> result_field (textBlock emoji arg) ''isSubtle'' = Some (JBool False))
       \<and> (read_prop arg ''separator'' = JUndefined
            \<longrightarrow> result_field (textBlock emoji arg) ''separator'' = Some (JBool False))
       \<and> (read_prop arg ''isVisible'' = JUndefined
            \<longrightarrow> result_field (textBlock emoji arg) ''isVisible'' = Some (JBool True))
       \<and> (\<forall>k \<in> set [''color'', ''fontType'', ''maxLines'', ''size'', ''weight'', ''height'',
                      ''spacing'', ''id''].
            read_prop arg k = JUndefined
            \<longrightarrow> result_field (textBlock emoji arg) k = Some JUndefined)"
  using assms
  by (simp add: textBlock_def dflt_def HAlign_left_def TextStyles_default_def)

theorem textBlock_defaults_witness:
  "result_field (textBlock (\<lambda>s. s) (JObj [(''text'', JStr ''x'')])) ''wrap'' = Some (JBool True)
   \<and> result_field (textBlock (\<lambda>s. s) (JObj [(''text'', JStr ''x'')])) ''horizontalAlignment''
       = Some (JStr ''left'')
   \<and> result_field (textBlock (\<lambda>s. s) (JObj [(''text'', JStr ''x'')])) ''style''
       = Some (JStr ''default'')
   \<and> result_field (textBlock (\<lambda>s. s) (JObj [(''text'', JStr ''x'')])) ''isSubtle''
       = Some (JBool False)
   \<and> result_field (textBlock (\<lambda>s. s) (JObj [(''text'', JStr ''x'')])) ''separator''
       = Some (JBool False)
   \<and> result_field (textBlock (\<lambda>s. s) (JObj [(''text'', JStr ''x'')])) ''isVisible''
       = Some (JBool True)
   \<and> result_field (textBlock (\<lambda>s. s) (JObj [(''text'', JStr ''x'')])) ''color'' = Some JUndefined
   \<and> result_field (textBlock (\<lambda>s. s) (JObj [(''text'', JStr ''x'')])) ''id'' = Some JUndefined"
  using textBlock_defaults [of "JObj [(''text'', JStr ''x'')]" "\<lambda>s. s"]
  by simp

section \<open>The derived field of an image\<close>

text \<open>
  C5. The object \<^verbatim>\<open>image\<close> returns always has the key \<^verbatim>\<open>msTeams\<close>, and its value is
  never \<^verbatim>\<open>undefined\<close>: it is \<^verbatim>\<open>{allowExpand: true}\<close> when \<^verbatim>\<open>allowZoom\<close> is \<^verbatim>\<open>true\<close>, and
  the empty object when \<^verbatim>\<open>allowZoom\<close> is \<^verbatim>\<open>false\<close> or omitted.
\<close>

theorem image_msTeams:
  assumes "\<not> nullish arg"
  shows "(\<exists>m. result_field (image arg) ''msTeams'' = Some m \<and> m \<noteq> JUndefined)
       \<and> (read_prop arg ''allowZoom'' = JBool True
            \<longrightarrow> result_field (image arg) ''msTeams'' = Some (JObj [(''allowExpand'', JBool True)]))
       \<and> (read_prop arg ''allowZoom'' = JBool False \<or> read_prop arg ''allowZoom'' = JUndefined
            \<longrightarrow> result_field (image arg) ''msTeams'' = Some (JObj []))"
  using assms
  by (auto simp add: image_def dflt_def)

theorem image_msTeams_witness:
  "result_field (image (JObj [(''url'', JStr ''u''), (''allowZoom'', JBool True)])) ''msTeams''
     = Some (JObj [(''allowExpand'', JBool True)])
   \<and> result_field (image (JObj [(''url'', JStr ''u''), (''allowZoom'', JBool False)])) ''msTeams''
       = Some (JObj [])
   \<and> result_field (image (JObj [(''url'', JStr ''u'')])) ''msTeams'' = Some (JObj [])"
  using image_msTeams [of "JObj [(''url'', JStr ''u''), (''allowZoom'', JBool True)]"]
    image_msTeams [of "JObj [(''url'', JStr ''u''), (''allowZoom'', JBool False)]"]
    image_msTeams [of "JObj [(''url'', JStr ''u'')]"]
  by simp

section \<open>People icons\<close>

text \<open>
  C6. For every array of users (any values but \<^verbatim>\<open>undefined\<close> and \<^verbatim>\<open>null\<close>),
  \<^verbatim>\<open>userIconSet\<close> returns the object with \<^verbatim>\<open>type\<close> \<^verbatim>\<open>"Component"\<close>, \<^verbatim>\<open>name\<close>
  \<^verbatim>\<open>"graph.microsoft.com/users"\<close>, \<^verbatim>\<open>view\<close> \<^verbatim>\<open>"compact"\<close> and \<^verbatim>\<open>properties.users\<close> the
  array of the users mapped one by one to \<^verbatim>\<open>{id, displayName: name,
  userPrincipalName: email}\<close>: same length, same order, nothing removed, and a field
  a user lacks is \<^verbatim>\<open>undefined\<close> in the result.
\<close>

theorem userIconSet_users:
  assumes "list_all (\<lambda>u. \<not> nullish u) users"
  shows "userIconSet (JArr users)
       = Inr (JObj
           [(''type'', JStr ''Component''),
            (''name'', JStr ''graph.microsoft.com/users''),
            (''view'', JStr ''compact''),
            (''properties'', JObj
               [(''users'', JArr (map (\<lambda>u. JObj
                    [(''id'', read_prop u ''id''),
                     (''displayName'', read_prop u ''name''),
                     (''userPrincipalName'', read_prop u ''email'')]) users))])])"
  using assms by (simp add: mapUsers_icons)

theorem userIconSet_users_witness:
  "userIconSet (JArr
      [JObj [(''id'', JStr ''1''), (''name'', JStr ''A''), (''email'', JStr ''a@x.com'')],
       JObj [(''id'', JStr ''2''), (''name'', JStr ''B''), (''email'', JStr ''b@x.com'')],
       JObj [(''id'', JStr ''1''), (''name'', JStr ''A'')]])
   = Inr (JObj
       [(''type'', JStr ''Component''),
        (''name'', JStr ''graph.microsoft.com/users''),
        (''view'', JStr ''compact''),
        (''properties'', JObj
           [(''users'', JArr
              [JObj [(''id'', JStr ''1''), (''displayName'', JStr ''A''),
                     (''userPrincipalName'', JStr ''a@x.com'')],
               JObj [(''id'', JStr ''2''), (''displayName'', JStr ''B''),
                     (''userPrincipalName'', JStr ''b@x.com'')],
               JObj [(''id'', JStr ''1''), (''displayName'', JStr ''A''),
                     (''userPrincipalName'', JUndefined)]])])])"
  using userIconSet_users
    [of "[JObj [(''id'', JStr ''1''), (''name'', JStr ''A''), (''email'', JStr ''a@x.com'')],
          JObj [(''id'', JStr ''2''), (''name'', JStr ''B''), (''email'', JStr ''b@x.com'')],
          JObj [(''id'', JStr ''1''), (''name'', JStr ''A'')]]"]
  by simp

section \<open>Media sources\<close>

text \<open>
  C7. For every argument other than \<^verbatim>\<open>undefined\<close> and \<^verbatim>\<open>null\<close>, \<^verbatim>\<open>mediaSource\<close> returns
  the object with exactly the two keys \<^verbatim>\<open>mimeType\<close> and \<^verbatim>\<open>url\<close>, in this order, holding
  the values of the argument; whatever else the argument holds is left out.
\<close>

theorem mediaSource_exact:
  assumes "\<not> nullish arg"
  shows "mediaSource arg
       = Inr (JObj [(''mimeType'', read_prop arg ''mimeType''), (''url'', read_prop arg ''url'')])"
  using assms by (simp add: mediaSource_def)

theorem mediaSource_exact_witness:
  "mediaSource (JObj [(''mimeType'', JStr ''video/mp4''), (''url'', JStr ''https://x/y.mp4'')])
     = Inr (JObj [(''mimeType'', JStr ''video/mp4''), (''url'', JStr ''https://x/y.mp4'')])
   \<and> mediaSource (JObj [(''url'', JStr ''https://x/y.mp4''), (''id'', JStr ''extra''),
                        (''mimeType'', JStr ''video/mp4'')])
     = Inr (JObj [(''mimeType'', JStr ''video/mp4''), (''url'', JStr ''https://x/y.mp4'')])"
  using mediaSource_exact
      [of "JObj [(''mimeType'', JStr ''video/mp4''), (''url'', JStr ''https://x/y.mp4'')]"]
    mediaSource_exact
      [of "JObj [(''url'', JStr ''https://x/y.mp4''), (''id'', JStr ''extra''),
                 (''mimeType'', JStr ''video/mp4'')]"]
  by simp

section \<open>Fields the text preprocessing leaves alone\<close>

text \<open>
  C8. The mention rewrite and the emoji converter reach only the \<^verbatim>\<open>text\<close> of
  \<^verbatim>\<open>textBlock\<close> and \<^verbatim>\<open>textRun\<close>. Every other field of an element is the value read
  from the argument, unchanged and whatever the emoji converter is: so for
  \<^verbatim>\<open>Image.url\<close>, \<^verbatim>\<open>Image.id\<close>, \<^verbatim>\<open>Media.altText\<close>, \<^verbatim>\<open>Media.poster\<close> and
  \<^verbatim>\<open>MediaSource.url\<close>, and so for a field with a default, \<^verbatim>\<open>Image.altText\<close> among
  them, whenever a value other than \<^verbatim>\<open>undefined\<close> is supplied.
\<close>

theorem preprocessing_frame:
  assumes "\<not> nullish arg"
  shows "result_field (textBlock emoji arg) ''text''
           = Some (preparedText emoji (read_prop arg ''text''))
       \<and> result_field (textRun emoji arg) ''text''
           = Some (preparedText emoji (read_prop arg ''text''))
       \<and> (\<forall>k \<in> set [''url'', ''backgroundColor'', ''height'', ''selectAction'', ''size'',
                      ''style'', ''width'', ''spacing'', ''id''].
            result_field (image arg) k = Some (read_prop arg k))
       \<and> (\<forall>k \<in> set [''altText'', ''horizontalAlignment'', ''separator'', ''isVisible''].
            read_prop arg k \<noteq> JUndefined
            \<longrightarrow> result_field (image arg) k = Some (read_prop arg k))
       \<and> (\<forall>k \<in> set [''sources'', ''poster'', ''altText'', ''height'', ''spacing'', ''id''].
            result_field (media arg) k = Some (read_prop arg k))
       \<and> (\<forall>k \<in> set [''separator'', ''isVisible''].
            read_prop arg k \<noteq> JUndefined
            \<longrightarrow> result_field (media arg) k = Some (read_prop arg k))
       \<and> (\<forall>k \<in> set [''mimeType'', ''url''].
            result_field (mediaSource arg) k = Some (read_prop arg k))
       \<and> (\<forall>k \<in> set [''inlines'', ''height'', ''spacing'', ''id''].
            result_field (richTextBlock arg) k = Some (read_prop arg k))
       \<and> (\<forall>k \<in> set [''horizontalAlignment'', ''separator'', ''isVisible''].
            read_prop arg k \<noteq> JUndefined
            \<longrightarrow> result_field (richTextBlock arg) k = Some (read_prop arg k))
       \<and> (\<forall>k \<in> set [''color'', ''fontType'', ''maxLines'', ''size'', ''weight'', ''height'',
                      ''spacing'', ''id''].
            result_field (textBlock emoji arg) k = Some (read_prop arg k))
       \<and> (\<forall>k \<in> set [''color'', ''fontType'', ''selectAction'', ''size'', ''weight''].
            result_field (textRun emoji arg) k = Some (read_prop arg k))"
proof (intro conjI)
  show "result_field (textBlock emoji arg) ''text''
      = Some (preparedText emoji (read_prop arg ''text''))"
    using assms by (rule textBlock_text)
  show "result_field (textRun emoji arg) ''text''
      = Some (preparedText emoji (read_prop arg ''text''))"
    using assms by (rule textRun_text)
qed (use assms in \<open>simp_all add: image_def media_def mediaSource_def richTextBlock_def
      textBlock_def textRun_def dflt_def\<close>)

text \<open>
  With a converter that turns every text into \<^verbatim>\<open>E\<close>: the \<^verbatim>\<open>text\<close> of a text block is
  rewritten and converted, its \<^verbatim>\<open>id\<close> is not, nor are the fields of an image, a media
  element and a media source, mention markers and emoji shorthand included.
\<close>

theorem preprocessing_frame_witness:
  "result_field (textBlock (\<lambda>s. ''E'') (JObj [(''text'', JStr ''@<t>''), (''id'', JStr ''@<i>'')]))
      ''text'' = Some (JStr ''E'')
   \<and> result_field (textBlock (\<lambda>s. ''E'') (JObj [(''text'', JStr ''@<t>''), (''id'', JStr ''@<i>'')]))
      ''id'' = Some (JStr ''@<i>'')
   \<and> result_field (image (JObj [(''url'', JStr ''@<u>''), (''altText'', JStr '':smile: @<a>''),
                                (''id'', JStr ''@<i>'')])) ''url'' = Some (JStr ''@<u>'')
   \<and> result_field (image (JObj [(''url'', JStr ''@<u>''), (''altText'', JStr '':smile: @<a>''),
                                (''id'', JStr ''@<i>'')])) ''altText'' = Some (JStr '':smile: @<a>'')
   \<and> result_field (image (JObj [(''url'', JStr ''@<u>''), (''altText'', JStr '':smile: @<a>''),
                                (''id'', JStr ''@<i>'')])) ''id'' = Some (JStr ''@<i>'')
   \<and> result_field (media (JObj [(''poster'', JStr ''@<p>''), (''altText'', JStr ''@<a>'')]))
      ''poster'' = Some (JStr ''@<p>'')
   \<and> result_field (media (JObj [(''poster'', JStr ''@<p>''), (''altText'', JStr ''@<a>'')]))
      ''altText'' = Some (JStr ''@<a>'')
   \<and> result_field (mediaSource (JObj [(''mimeType'', JStr ''video/mp4''), (''url'', JStr ''@<u>'')]))
      ''url'' = Some (JStr ''@<u>'')"
  using preprocessing_frame
      [of "JObj [(''text'', JStr ''@<t>''), (''id'', JStr ''@<i>'')]" "\<lambda>s. ''E''"]
    preprocessing_frame
      [of "JObj [(''url'', JStr ''@<u>''), (''altText'', JStr '':smile: @<a>''),
                 (''id'', JStr ''@<i>'')]" "\<lambda>s. ''E''"]
    preprocessing_frame
      [of "JObj [(''poster'', JStr ''@<p>''), (''altText'', JStr ''@<a>'')]" "\<lambda>s. ''E''"]
    preprocessing_frame
      [of "JObj [(''mimeType'', JStr ''video/mp4''), (''url'', JStr ''@<u>'')]" "\<lambda>s. ''E''"]
  by (simp add: preparedText_def)

section \<open>Supplied values and defaults\<close>

text \<open>
  C10. A default is taken only for a field that is omitted or \<^verbatim>\<open>undefined\<close>: in every
  builder, a field with a default that is given any other value, \<^verbatim>\<open>null\<close> and \<^verbatim>\<open>false\<close>
  included, has that value in the object returned. (\<^verbatim>\<open>allowZoom\<close> of \<^verbatim>\<open>image\<close> also has
  a default, but it is not a field of the object returned.)
\<close>

theorem supplied_value_kept:
  assumes "\<not> nullish arg"
  shows "(\<forall>k \<in> set [''horizontalAlignment'', ''isSubtle'', ''wrap'', ''style'', ''separator'',
                     ''isVisible''].
            read_prop arg k \<noteq> JUndefined
            \<longrightarrow> result_field (textBlock emoji arg) k = Some (read_prop arg k))
       \<and> (\<forall>k \<in> set [''altText'', ''horizontalAlignment'', ''separator'', ''isVisible''].
            read_prop arg k \<noteq> JUndefined
            \<longrightarrow> result_field (image arg) k = Some (read_prop arg k))
       \<and> (\<forall>k \<in> set [''separator'', ''isVisible''].
            read_prop arg k \<noteq> JUndefined
            \<longrightarrow> result_field (media arg) k = Some (read_prop arg k))
       \<and> (\<forall>k \<in> set [''horizontalAlignment'', ''separator'', ''isVisible''].
            read_prop arg k \<noteq> JUndefined
            \<longrightarrow> result_field (richTextBlock arg) k = Some (read_prop arg k))
       \<and> (\<forall>k \<in> set [''highlight'', ''isSubtle'', ''italic'', ''strikethrough'', ''underline''].
            read_prop arg k \<noteq> JUndefined
            \<longrightarrow> result_field (textRun emoji arg) k = Some (read_prop arg k))"
  using assms
  by (intro conjI)
    (simp_all add: image_def media_def richTextBlock_def textBlock_def textRun_def dflt_def)

theorem supplied_value_kept_witness:
  "result_field (textBlock (\<lambda>s. s) (JObj [(''text'', JStr ''x''), (''wrap'', JNull)])) ''wrap''
     = Some JNull
   \<and> result_field (textBlock (\<lambda>s. s) (JObj [(''text'', JStr ''x''), (''wrap'', JBool False)])) ''wrap''
     = Some (JBool False)
   \<and> result_field (image (JObj [(''url'', JStr ''u''), (''altText'', JStr ''''),
                                (''isVisible'', JNum (Finite 0))])) ''altText'' = Some (JStr '''')
   \<and> result_field (image (JObj [(''url'', JStr ''u''), (''altText'', JStr ''''),
                                (''isVisible'', JNum (Finite 0))])) ''isVisible''
     = Some (JNum (Finite 0))"
  using supplied_value_kept [of "JObj [(''text'', JStr ''x''), (''wrap'', JNull)]" "\<lambda>s. s"]
    supplied_value_kept [of "JObj [(''text'', JStr ''x''), (''wrap'', JBool False)]" "\<lambda>s. s"]
    supplied_value_kept
      [of "JObj [(''url'', JStr ''u''), (''altText'', JStr ''''), (''isVisible'', JNum (Finite 0))]"
          "\<lambda>s. s"]
  by simp

end
